theory Spec2Isabelle
  imports Main
begin

section \<open>The session manager of \<^verbatim>\<open>lib/state/session/session.ts\<close>\<close>

text \<open>
  The class \<^verbatim>\<open>Session\<close> holds at most one session object in its private field
  \<^verbatim>\<open>current\<close> and a callback \<^verbatim>\<open>onSessionChange\<close>. Its methods either throw an
  \<^verbatim>\<open>Error\<close> or return; what they do besides is (a) assign \<^verbatim>\<open>this.current\<close> and (b) call
  code that lives outside the class: the capabilities of the current session and the
  callback.

  The embedding passes state explicitly. A method takes the manager \<open>this\<close> together with
  the environment outside the manager, and gives back what the call produced (the thrown
  error as \<open>Inl\<close>, the returned value as \<open>Inr\<close>) together with the manager and the
  environment as the call leaves them. A throwing call gives back the state reached at the
  \<^verbatim>\<open>throw\<close> statement.
\<close>

subsection \<open>Thrown errors\<close>

text \<open>
  Both \<^verbatim>\<open>throw\<close> statements of the class build a plain \<^verbatim>\<open>Error\<close> from a message.
  \<open>DoubleBeginError\<close> is the one of \<^verbatim>\<open>begin\<close> (line 42), \<open>NoActiveSessionError\<close> the one
  of \<^verbatim>\<open>update\<close> (line 64).
\<close>

datatype error = Error string

definition DoubleBeginError :: error where
  "DoubleBeginError =
     Error ''Cannot begin a session until the current session is complete. This error indicates a problem with the state chart.''"

definition NoActiveSessionError :: error where
  "NoActiveSessionError = Error ''No current session.''"

subsection \<open>Session objects\<close>

text \<open>
  Modelled from the spec: the interface \<^verbatim>\<open>BaseSession\<close> is imported from
  \<^verbatim>\<open>./sessions/session-types\<close>, which is not among the sources. The capability contract
  of the specification is \<^verbatim>\<open>update(args) -> void\<close>, \<^verbatim>\<open>complete(args) -> Result | void\<close>,
  \<^verbatim>\<open>cancel(args) -> void\<close>; every session implements all three.

  A session is a record of its three capabilities. Each acts on the world outside the
  manager (type \<open>'w\<close>, which holds the session's own data too), takes an argument tuple
  (type \<open>'a\<close>) and returns as the contract says; \<^verbatim>\<open>complete\<close> gives a result of type
  \<open>'r\<close> or \<^verbatim>\<open>undefined\<close> (\<open>None\<close>). A session object is never \<^verbatim>\<open>undefined\<close> and is
  truthy, as every JavaScript object is. The capabilities and the notifier return
  normally and do not call back into the manager: the fields of the manager are out of
  their reach.
\<close>

record ('a, 'r, 'w) BaseSession =
  session_update :: "'a \<Rightarrow> 'w \<Rightarrow> 'w"
  session_complete :: "'a \<Rightarrow> 'w \<Rightarrow> 'r option \<times> 'w"
  session_cancel :: "'a \<Rightarrow> 'w \<Rightarrow> 'w"

subsection \<open>The environment and the calls that leave the manager\<close>

text \<open>
  The environment is the world the callbacks act on, together with the sequence of the
  calls the manager has made into it, oldest first. Every call the source makes to a
  session capability or to \<^verbatim>\<open>onSessionChange\<close> is one entry of \<open>calls\<close>.
\<close>

datatype ('a, 'r, 'w) call =
    OnSessionChange
  | SessionUpdate "('a, 'r, 'w) BaseSession" 'a
  | SessionComplete "('a, 'r, 'w) BaseSession" 'a
  | SessionCancel "('a, 'r, 'w) BaseSession" 'a

record ('a, 'r, 'w) env =
  world :: 'w
  calls :: "('a, 'r, 'w) call list"

subsection \<open>The manager\<close>

text \<open>
  \<^verbatim>\<open>private current?: BaseSession\<close> is \<open>None\<close> when \<^verbatim>\<open>undefined\<close>;
  \<^verbatim>\<open>onSessionChange: () => void\<close> is set by the constructor and never assigned again.
\<close>

record ('a, 'r, 'w) Session =
  current :: "('a, 'r, 'w) BaseSession option"
  onSessionChange :: "'w \<Rightarrow> 'w"

type_synonym ('a, 'r, 'w) state = "('a, 'r, 'w) Session \<times> ('a, 'r, 'w) env"

text \<open>A method returns \<^verbatim>\<open>this\<close> or, for \<^verbatim>\<open>complete\<close>, the value \<^verbatim>\<open>finalCommand\<close>.\<close>

datatype 'r returned = This | FinalCommand "'r option"

type_synonym 'r outcome = "error + 'r returned"

text \<open>\<^verbatim>\<open>constructor(onSessionChange)\<close>: the field \<^verbatim>\<open>current\<close> starts \<^verbatim>\<open>undefined\<close>.\<close>

definition new_Session :: "('w \<Rightarrow> 'w) \<Rightarrow> ('a, 'r, 'w) Session" where
  "new_Session f = \<lparr>current = None, onSessionChange = f\<rparr>"

text \<open>The four kinds of call that leave the manager.\<close>

definition call_onSessionChange ::
  "('a, 'r, 'w) Session \<Rightarrow> ('a, 'r, 'w) env \<Rightarrow> ('a, 'r, 'w) env" where
  "call_onSessionChange this e =
     \<lparr>world = onSessionChange this (world e), calls = calls e @ [OnSessionChange]\<rparr>"

definition call_update ::
  "('a, 'r, 'w) BaseSession \<Rightarrow> 'a \<Rightarrow> ('a, 'r, 'w) env \<Rightarrow> ('a, 'r, 'w) env" where
  "call_update session args e =
     \<lparr>world = session_update session args (world e),
      calls = calls e @ [SessionUpdate session args]\<rparr>"

definition call_complete ::
  "('a, 'r, 'w) BaseSession \<Rightarrow> 'a \<Rightarrow> ('a, 'r, 'w) env \<Rightarrow> 'r option \<times> ('a, 'r, 'w) env" where
  "call_complete session args e =
     (fst (session_complete session args (world e)),
      \<lparr>world = snd (session_complete session args (world e)),
       calls = calls e @ [SessionComplete session args]\<rparr>)"

definition call_cancel ::
  "('a, 'r, 'w) BaseSession \<Rightarrow> 'a \<Rightarrow> ('a, 'r, 'w) env \<Rightarrow> ('a, 'r, 'w) env" where
  "call_cancel session args e =
     \<lparr>world = session_cancel session args (world e),
      calls = calls e @ [SessionCancel session args]\<rparr>"

text \<open>
  \<^verbatim>\<open>begin(session)\<close>, lines 40 to 50: throw if \<^verbatim>\<open>this.current\<close> is set; otherwise store
  the session, call \<^verbatim>\<open>onSessionChange\<close>, return \<^verbatim>\<open>this\<close>.
\<close>

definition begin_session ::
  "('a, 'r, 'w) BaseSession \<Rightarrow> ('a, 'r, 'w) state \<Rightarrow> 'r outcome \<times> ('a, 'r, 'w) state" where
  "begin_session session st =
     (case st of (this, e) \<Rightarrow>
        if current this \<noteq> None then (Inl DoubleBeginError, (this, e))
        else
          let this1 = this\<lparr>current := Some session\<rparr>;
              e1 = call_onSessionChange this1 e
          in (Inr This, (this1, e1)))"

text \<open>
  \<^verbatim>\<open>update(...args)\<close>, lines 60 to 70: throw if \<^verbatim>\<open>this.current\<close> is \<^verbatim>\<open>undefined\<close>;
  otherwise call the session's \<^verbatim>\<open>update\<close> with the arguments, call
  \<^verbatim>\<open>onSessionChange\<close>, return \<^verbatim>\<open>this\<close>.
\<close>

definition update ::
  "'a \<Rightarrow> ('a, 'r, 'w) state \<Rightarrow> 'r outcome \<times> ('a, 'r, 'w) state" where
  "update args st =
     (case st of (this, e) \<Rightarrow>
        (case current this of
           None \<Rightarrow> (Inl NoActiveSessionError, (this, e))
         | Some session \<Rightarrow>
             let e1 = call_update session args e;
                 e2 = call_onSessionChange this e1
             in (Inr This, (this, e2))))"

text \<open>
  \<^verbatim>\<open>complete(...args)\<close>, lines 80 to 84: \<^verbatim>\<open>this.current?.complete.call(...)\<close> is
  \<^verbatim>\<open>undefined\<close> without a current session and the session's result otherwise; then the
  slot is cleared and the value returned.
\<close>

definition complete ::
  "'a \<Rightarrow> ('a, 'r, 'w) state \<Rightarrow> 'r outcome \<times> ('a, 'r, 'w) state" where
  "complete args st =
     (case st of (this, e) \<Rightarrow>
        let (finalCommand, e1) =
              (case current this of
                 None \<Rightarrow> (None, e)
               | Some session \<Rightarrow> call_complete session args e);
            this1 = this\<lparr>current := None\<rparr>
        in (Inr (FinalCommand finalCommand), (this1, e1)))"

text \<open>
  \<^verbatim>\<open>cancel(...args)\<close>, lines 94 to 99: call the session's \<^verbatim>\<open>cancel\<close> if there is a
  session, clear the slot, call \<^verbatim>\<open>onSessionChange\<close>, return \<^verbatim>\<open>this\<close>.
\<close>

definition cancel ::
  "'a \<Rightarrow> ('a, 'r, 'w) state \<Rightarrow> 'r outcome \<times> ('a, 'r, 'w) state" where
  "cancel args st =
     (case st of (this, e) \<Rightarrow>
        let e1 = (case current this of
                    None \<Rightarrow> e
                  | Some session \<Rightarrow> call_cancel session args e);
            this1 = this\<lparr>current := None\<rparr>;
            e2 = call_onSessionChange this1 e1
        in (Inr This, (this1, e2)))"

text \<open>\<^verbatim>\<open>quietlyComplete()\<close>, lines 110 to 113: clear the slot, return \<^verbatim>\<open>this\<close>.\<close>

definition quietlyComplete ::
  "('a, 'r, 'w) state \<Rightarrow> 'r outcome \<times> ('a, 'r, 'w) state" where
  "quietlyComplete st =
     (case st of (this, e) \<Rightarrow> (Inr This, (this\<lparr>current := None\<rparr>, e)))"

text \<open>
  \<^verbatim>\<open>get isInSession()\<close>, lines 115 to 117: the getter is a method like the others, so it
  gives back the state too.
\<close>

definition isInSession :: "('a, 'r, 'w) state \<Rightarrow> bool \<times> ('a, 'r, 'w) state" where
  "isInSession st = (case st of (this, e) \<Rightarrow> (current this \<noteq> None, (this, e)))"


subsection \<open>Sequences of operations\<close>

text \<open>
  A caller applies the operations one after the other to the same manager. An operation
  that throws leaves the manager as it was at the \<^verbatim>\<open>throw\<close>; the caller goes on with
  the next operation. \<open>run\<close> gives what each operation produced, in order, and the
  final state.
\<close>

datatype ('a, 'r, 'w) operation =
    Begin "('a, 'r, 'w) BaseSession"
  | Update 'a
  | Complete 'a
  | Cancel 'a
  | QuietlyComplete

fun step ::
  "('a, 'r, 'w) operation \<Rightarrow> ('a, 'r, 'w) state \<Rightarrow> 'r outcome \<times> ('a, 'r, 'w) state" where
  "step (Begin session) st = begin_session session st"
| "step (Update args) st = update args st"
| "step (Complete args) st = complete args st"
| "step (Cancel args) st = cancel args st"
| "step QuietlyComplete st = quietlyComplete st"

fun run ::
  "('a, 'r, 'w) operation list \<Rightarrow> ('a, 'r, 'w) state \<Rightarrow>
     'r outcome list \<times> ('a, 'r, 'w) state" where
  "run [] st = ([], st)"
| "run (x # xs) st =
     (case step x st of (r, st1) \<Rightarrow>
        (case run xs st1 of (rs, st2) \<Rightarrow> (r # rs, st2)))"

text \<open>The operations of a run with what each produced, the most recent first.\<close>

definition history ::
  "('a, 'r, 'w) operation list \<Rightarrow> ('a, 'r, 'w) state \<Rightarrow>
     (('a, 'r, 'w) operation \<times> 'r outcome) list" where
  "history ops st = rev (zip ops (fst (run ops st)))"

text \<open>
  The specification's reading of a history (most recent first), in its own words: the
  most recent terminal operation was a begin that succeeded, not yet followed by a
  complete, a cancel or a quietlyComplete. An update is not terminal; a begin that threw
  is not a successful begin, and the search goes on behind it.
\<close>

fun last_terminal_is_successful_begin ::
  "(('a, 'r, 'w) operation \<times> 'r outcome) list \<Rightarrow> bool" where
  "last_terminal_is_successful_begin [] = False"
| "last_terminal_is_successful_begin ((Begin session, Inr r) # h) = True"
| "last_terminal_is_successful_begin ((Begin session, Inl err) # h) =
     last_terminal_is_successful_begin h"
| "last_terminal_is_successful_begin ((Update args, r) # h) =
     last_terminal_is_successful_begin h"
| "last_terminal_is_successful_begin ((Complete args, r) # h) = False"
| "last_terminal_is_successful_begin ((Cancel args, r) # h) = False"
| "last_terminal_is_successful_begin ((QuietlyComplete, r) # h) = False"

text \<open>
  The same on the operations alone (most recent first): the most recent operation among
  begin, complete, cancel and quietlyComplete is a begin.
\<close>

fun last_terminal_is_begin :: "('a, 'r, 'w) operation list \<Rightarrow> bool" where
  "last_terminal_is_begin [] = False"
| "last_terminal_is_begin (Begin session # h) = True"
| "last_terminal_is_begin (Update args # h) = last_terminal_is_begin h"
| "last_terminal_is_begin (Complete args # h) = False"
| "last_terminal_is_begin (Cancel args # h) = False"
| "last_terminal_is_begin (QuietlyComplete # h) = False"

text \<open>How often the notifier was called in a sequence of calls.\<close>

fun is_notification :: "('a, 'r, 'w) call \<Rightarrow> bool" where
  "is_notification OnSessionChange = True"
| "is_notification (SessionUpdate session args) = False"
| "is_notification (SessionComplete session args) = False"
| "is_notification (SessionCancel session args) = False"

definition notifications :: "('a, 'r, 'w) call list \<Rightarrow> nat" where
  "notifications cs = length (filter is_notification cs)"

subsection \<open>A concrete editor for the examples\<close>

text \<open>
  The world is the list of points drawn so far and the number of renders. The notifier
  renders once. A drawing session adds a point on update, returns the number of points
  as its command on complete, and drops the points on cancel. An erasing session drops
  the points on update and has no command.
\<close>

definition render :: "nat list \<times> nat \<Rightarrow> nat list \<times> nat" where
  "render w = (fst w, Suc (snd w))"

definition DrawSession :: "(nat, nat, nat list \<times> nat) BaseSession" where
  "DrawSession =
     \<lparr>session_update = (\<lambda>p w. (fst w @ [p], snd w)),
      session_complete = (\<lambda>p w. (Some (length (fst w)), w)),
      session_cancel = (\<lambda>p w. ([], snd w))\<rparr>"

definition EraseSession :: "(nat, nat, nat list \<times> nat) BaseSession" where
  "EraseSession =
     \<lparr>session_update = (\<lambda>p w. ([], snd w)),
      session_complete = (\<lambda>p w. (None, w)),
      session_cancel = (\<lambda>p w. w)\<rparr>"

definition env0 :: "(nat, nat, nat list \<times> nat) env" where
  "env0 = \<lparr>world = ([], 0), calls = []\<rparr>"

definition drawing :: "(nat, nat, nat list \<times> nat) state" where
  "drawing = (\<lparr>current = Some DrawSession, onSessionChange = render\<rparr>, env0)"

definition idle :: "(nat, nat, nat list \<times> nat) state" where
  "idle = (new_Session render, env0)"

section \<open>Properties\<close>

subsection \<open>Facts about single calls\<close>

lemma begin_session_active:
  "current this = Some s0 \<Longrightarrow> begin_session s (this, e) = (Inl DoubleBeginError, (this, e))"
  by (simp add: begin_session_def)

lemma begin_session_idle:
  "current this = None \<Longrightarrow>
     begin_session s (this, e) =
       (Inr This, (this\<lparr>current := Some s\<rparr>,
                   \<lparr>world = onSessionChange this (world e), calls = calls e @ [OnSessionChange]\<rparr>))"
  by (simp add: begin_session_def call_onSessionChange_def)

lemma update_idle:
  "current this = None \<Longrightarrow> update args (this, e) = (Inl NoActiveSessionError, (this, e))"
  by (simp add: update_def)

lemma update_active:
  "current this = Some s \<Longrightarrow>
     update args (this, e) =
       (Inr This, (this,
          \<lparr>world = onSessionChange this (session_update s args (world e)),
           calls = calls e @ [SessionUpdate s args, OnSessionChange]\<rparr>))"
  by (simp add: update_def call_update_def call_onSessionChange_def)

lemma complete_idle:
  "current this = None \<Longrightarrow> complete args (this, e) = (Inr (FinalCommand None), (this, e))"
  by (simp add: complete_def)

lemma complete_active:
  "current this = Some s \<Longrightarrow>
     complete args (this, e) =
       (Inr (FinalCommand (fst (session_complete s args (world e)))),
        (this\<lparr>current := None\<rparr>,
         \<lparr>world = snd (session_complete s args (world e)),
          calls = calls e @ [SessionComplete s args]\<rparr>))"
  by (simp add: complete_def call_complete_def)

lemma cancel_idle:
  "current this = None \<Longrightarrow>
     cancel args (this, e) =
       (Inr This, (this,
          \<lparr>world = onSessionChange this (world e), calls = calls e @ [OnSessionChange]\<rparr>))"
  by (simp add: cancel_def call_onSessionChange_def)

lemma cancel_active:
  "current this = Some s \<Longrightarrow>
     cancel args (this, e) =
       (Inr This, (this\<lparr>current := None\<rparr>,
          \<lparr>world = onSessionChange this (session_cancel s args (world e)),
           calls = calls e @ [SessionCancel s args, OnSessionChange]\<rparr>))"
  by (simp add: cancel_def call_cancel_def call_onSessionChange_def)

lemma quietlyComplete_eq:
  "quietlyComplete (this, e) = (Inr This, (this\<lparr>current := None\<rparr>, e))"
  by (simp add: quietlyComplete_def)

lemma isInSession_eq: "isInSession (this, e) = (current this \<noteq> None, (this, e))"
  by (simp add: isInSession_def)

subsection \<open>Facts about sequences of operations\<close>

lemma length_run: "length (fst (run xs st)) = length xs"
  by (induction xs arbitrary: st) (simp_all add: case_prod_beta)

lemma results_snoc:
  "fst (run (xs @ [x]) st) = fst (run xs st) @ [fst (step x (snd (run xs st)))]"
  by (induction xs arbitrary: st) (simp_all add: case_prod_beta)

lemma final_snoc: "snd (run (xs @ [x]) st) = snd (step x (snd (run xs st)))"
  by (induction xs arbitrary: st) (simp_all add: case_prod_beta)

lemma history_snoc:
  "history (xs @ [x]) st = (x, fst (step x (snd (run xs st)))) # history xs st"
  by (simp add: history_def results_snoc length_run)

lemma step_successful_begin:
  "fst (isInSession st) = last_terminal_is_successful_begin h \<Longrightarrow>
     fst (isInSession (snd (step x st))) =
       last_terminal_is_successful_begin ((x, fst (step x st)) # h)"
proof (cases st)
  case (Pair this e)
  assume inv: "fst (isInSession st) = last_terminal_is_successful_begin h"
  show ?thesis
  proof (cases "current this")
    case None
    with Pair inv show ?thesis
      by (cases x)
        (simp_all add: isInSession_eq begin_session_idle update_idle complete_idle
          cancel_idle quietlyComplete_eq)
  next
    case (Some s0)
    with Pair inv show ?thesis
      by (cases x)
        (simp_all add: isInSession_eq begin_session_active update_active complete_active
          cancel_active quietlyComplete_eq)
  qed
qed

lemma step_begin:
  "fst (isInSession st) = last_terminal_is_begin h \<Longrightarrow>
     fst (isInSession (snd (step x st))) = last_terminal_is_begin (x # h)"
proof (cases st)
  case (Pair this e)
  assume inv: "fst (isInSession st) = last_terminal_is_begin h"
  show ?thesis
  proof (cases "current this")
    case None
    with Pair inv show ?thesis
      by (cases x)
        (simp_all add: isInSession_eq begin_session_idle update_idle complete_idle
          cancel_idle quietlyComplete_eq)
  next
    case (Some s0)
    with Pair inv show ?thesis
      by (cases x)
        (simp_all add: isInSession_eq begin_session_active update_active complete_active
          cancel_active quietlyComplete_eq)
  qed
qed

lemma run_successful_begin:
  "fst (isInSession (snd (run ops (new_Session f, e)))) =
     last_terminal_is_successful_begin (history ops (new_Session f, e))"
proof (induction ops rule: rev_induct)
  case Nil
  show ?case by (simp add: history_def isInSession_eq new_Session_def)
next
  case (snoc x xs)
  then show ?case by (simp add: history_snoc final_snoc step_successful_begin)
qed

lemma run_begin:
  "fst (isInSession (snd (run ops (new_Session f, e)))) = last_terminal_is_begin (rev ops)"
proof (induction ops rule: rev_induct)
  case Nil
  show ?case by (simp add: isInSession_eq new_Session_def)
next
  case (snoc x xs)
  then show ?case by (simp add: final_snoc step_begin)
qed

subsection \<open>The claims\<close>

text \<open>
  C1. In every state in which a session is active, \<^verbatim>\<open>begin\<close> with any session throws
  the \<open>DoubleBeginError\<close>; the manager and the environment are exactly as before the
  call (nothing is stored, no call leaves the manager), so the session that was active
  still is. \<^verbatim>\<open>begin\<close> returns exactly when no session is active.
\<close>

theorem begin_while_active_raises:
  "(current this \<noteq> None \<longrightarrow>
      begin_session s (this, e) = (Inl DoubleBeginError, (this, e))
      \<and> fst (isInSession (snd (begin_session s (this, e)))))
   \<and> ((\<exists>r. fst (begin_session s (this, e)) = Inr r) \<longleftrightarrow> current this = None)"
  by (cases "current this") (simp_all add: begin_session_active begin_session_idle isInSession_eq)

text \<open>
  The theorem at a manager that holds a drawing session: beginning an erasing session
  throws and the drawing session stays.
\<close>

theorem begin_while_active_raises_witness:
  "current (fst drawing) \<noteq> None
   \<and> begin_session EraseSession drawing = (Inl DoubleBeginError, drawing)
   \<and> current (fst (snd (begin_session EraseSession drawing))) = Some DrawSession
   \<and> fst (isInSession (snd (begin_session EraseSession drawing)))"
  using begin_while_active_raises [of "fst drawing" EraseSession "snd drawing"]
  by (simp add: drawing_def begin_session_active isInSession_eq)

text \<open>
  C2. After every finite sequence of begin, update, complete, cancel and quietlyComplete
  applied to a freshly constructed manager, \<^verbatim>\<open>isInSession\<close> is true if and only if the
  most recent terminal operation was a successful begin not yet followed by a complete,
  a cancel or a quietlyComplete (first conjunct, on the operations with their outcomes;
  second conjunct, on the operations alone). The getter changes neither the manager nor
  the environment, so it calls nothing (third conjunct).
\<close>

theorem isInSession_iff_last_terminal_is_begin:
  "fst (isInSession (snd (run ops (new_Session f, e)))) =
     last_terminal_is_successful_begin (history ops (new_Session f, e))
   \<and> fst (isInSession (snd (run ops (new_Session f, e)))) = last_terminal_is_begin (rev ops)
   \<and> snd (isInSession st) = st"
proof -
  have "snd (isInSession st) = st"
    by (cases st) (simp add: isInSession_eq)
  then show ?thesis
    using run_successful_begin [of ops f e] run_begin [of ops f e] by simp
qed

text \<open>
  C3. The trace begin(S), update(a), update(b), complete(c) on a fresh manager, for any
  session \<open>S\<close>, notifier \<open>f\<close> and world \<open>w\<close>. The calls that leave the manager are,
  in this order: the notifier, \<open>S\<close>'s update with \<open>a\<close>, the notifier, \<open>S\<close>'s update
  with \<open>b\<close>, the notifier, \<open>S\<close>'s complete with \<open>c\<close>. So the notifier has fired three
  times before completion (and not again), \<open>S\<close>'s complete is called once, the manager
  ends idle, and the value returned by the manager's complete is the value \<open>S\<close>'s
  complete returns when called with \<open>c\<close> at that point.
\<close>

theorem scenario_begin_update_update_complete:
  "run [Begin S, Update a, Update b, Complete c] (new_Session f, \<lparr>world = w, calls = []\<rparr>) =
     ([Inr This, Inr This, Inr This,
       Inr (FinalCommand
             (fst (session_complete S c
                    (f (session_update S b (f (session_update S a (f w))))))))],
      (new_Session f,
       \<lparr>world = snd (session_complete S c
                       (f (session_update S b (f (session_update S a (f w)))))),
        calls = [OnSessionChange, SessionUpdate S a, OnSessionChange, SessionUpdate S b,
                 OnSessionChange, SessionComplete S c]\<rparr>))
   \<and> snd (run [Begin S, Update a, Update b] (new_Session f, \<lparr>world = w, calls = []\<rparr>)) =
       ((new_Session f)\<lparr>current := Some S\<rparr>,
        \<lparr>world = f (session_update S b (f (session_update S a (f w)))),
         calls = [OnSessionChange, SessionUpdate S a, OnSessionChange, SessionUpdate S b,
                  OnSessionChange]\<rparr>)
   \<and> notifications
        (calls (snd (snd (run [Begin S, Update a, Update b]
                           (new_Session f, \<lparr>world = w, calls = []\<rparr>))))) = 3
   \<and> notifications
        (calls (snd (snd (run [Begin S, Update a, Update b, Complete c]
                           (new_Session f, \<lparr>world = w, calls = []\<rparr>))))) = 3
   \<and> fst (isInSession (snd (run [Begin S, Update a, Update b, Complete c]
                              (new_Session f, \<lparr>world = w, calls = []\<rparr>)))) = False"
  by (simp add: new_Session_def begin_session_idle update_active complete_active
      isInSession_eq notifications_def)

text \<open>
  C4. With an active session \<open>S\<close>, complete(args) leaves the manager idle, returns
  exactly what \<open>S\<close>'s complete returns for \<open>args\<close>, and makes one call, to \<open>S\<close>'s
  complete: the notifier is not called.
\<close>

theorem complete_active_returns_session_result:
  "current this = Some S \<Longrightarrow>
     complete args (this, e) =
       (Inr (FinalCommand (fst (session_complete S args (world e)))),
        (this\<lparr>current := None\<rparr>,
         \<lparr>world = snd (session_complete S args (world e)),
          calls = calls e @ [SessionComplete S args]\<rparr>))
     \<and> fst (isInSession (snd (complete args (this, e)))) = False
     \<and> notifications (calls (snd (snd (complete args (this, e))))) = notifications (calls e)"
  by (simp add: complete_active isInSession_eq notifications_def)

text \<open>
  The theorem at a manager that holds a drawing session with no point drawn: the command
  is the number of points, 0.
\<close>

theorem complete_active_returns_session_result_witness:
  "current (fst drawing) = Some DrawSession
   \<and> complete 0 drawing =
       (Inr (FinalCommand (Some 0)),
        (new_Session render,
         \<lparr>world = ([], 0), calls = [SessionComplete DrawSession 0]\<rparr>))
   \<and> fst (isInSession (snd (complete 0 drawing))) = False
   \<and> notifications (calls (snd (snd (complete 0 drawing)))) = 0"
  using complete_active_returns_session_result [of "fst drawing" DrawSession 0 "snd drawing"]
  by (simp add: drawing_def env0_def new_Session_def DrawSession_def notifications_def
      isInSession_eq)

text \<open>
  C5. With an active session \<open>S\<close>, cancel(args) leaves the manager idle, calls \<open>S\<close>'s
  cancel once with \<open>args\<close> and then the notifier once, and returns the manager itself.
\<close>

theorem cancel_active_clears_and_notifies_once:
  "current this = Some S \<Longrightarrow>
     cancel args (this, e) =
       (Inr This,
        (this\<lparr>current := None\<rparr>,
         \<lparr>world = onSessionChange this (session_cancel S args (world e)),
          calls = calls e @ [SessionCancel S args, OnSessionChange]\<rparr>))
     \<and> fst (isInSession (snd (cancel args (this, e)))) = False
     \<and> notifications (calls (snd (snd (cancel args (this, e))))) =
         notifications (calls e) + 1"
  by (simp add: cancel_active isInSession_eq notifications_def)

text \<open>
The theorem at a manager that holds a drawing session.
\<close>

theorem cancel_active_clears_and_notifies_once_witness:
  "current (fst drawing) = Some DrawSession
   \<and> cancel 5 drawing =
       (Inr This,
        (new_Session render,
         \<lparr>world = ([], 1), calls = [SessionCancel DrawSession 5, OnSessionChange]\<rparr>))
   \<and> fst (isInSession (snd (cancel 5 drawing))) = False
   \<and> notifications (calls (snd (snd (cancel 5 drawing)))) = 1"
  using cancel_active_clears_and_notifies_once [of "fst drawing" DrawSession 5 "snd drawing"]
  by (simp add: drawing_def env0_def new_Session_def DrawSession_def render_def
      notifications_def isInSession_eq)

text \<open>
  C6. Without an active session, update throws the \<open>NoActiveSessionError\<close> (and changes
  nothing). With an active session \<open>S\<close> it calls \<open>S\<close>'s update with the arguments, then
  the notifier, and returns the manager itself; the session stays active.
\<close>

theorem update_raises_when_idle_forwards_when_active:
  "(current this = None \<longrightarrow>
      update args (this, e) = (Inl NoActiveSessionError, (this, e)))
   \<and> (current this = Some S \<longrightarrow>
        update args (this, e) =
          (Inr This,
           (this,
            \<lparr>world = onSessionChange this (session_update S args (world e)),
             calls = calls e @ [SessionUpdate S args, OnSessionChange]\<rparr>)))"
  by (simp add: update_idle update_active)

text \<open>
  The theorem at a fresh manager, where update throws, and at a manager that holds a
  drawing session, where the point is drawn and one render follows.
\<close>

theorem update_raises_when_idle_forwards_when_active_witness:
  "current (fst idle) = None
   \<and> fst (isInSession idle) = False
   \<and> update 3 idle = (Inl NoActiveSessionError, idle)
   \<and> current (fst drawing) = Some DrawSession
   \<and> update 3 drawing =
       (Inr This,
        (fst drawing,
         \<lparr>world = ([3], 1), calls = [SessionUpdate DrawSession 3, OnSessionChange]\<rparr>))"
  using update_raises_when_idle_forwards_when_active [of "fst idle" 3 "snd idle"]
    update_raises_when_idle_forwards_when_active
      [of "fst drawing" 3 "snd drawing" DrawSession]
  by (simp add: idle_def drawing_def env0_def new_Session_def DrawSession_def render_def
      isInSession_eq)

text \<open>
  C7. Without an active session, complete throws nothing, returns \<^verbatim>\<open>undefined\<close>, and
  leaves the manager (idle) and the environment as they were.
\<close>

theorem complete_idle_returns_undefined:
  "current this = None \<Longrightarrow>
     complete args (this, e) = (Inr (FinalCommand None), (this, e))
     \<and> fst (isInSession (snd (complete args (this, e)))) = False"
  by (simp add: complete_idle isInSession_eq)

text \<open>
The theorem at a fresh manager.
\<close>

theorem complete_idle_returns_undefined_witness:
  "current (fst idle) = None
   \<and> complete 1 idle = (Inr (FinalCommand None), idle)
   \<and> fst (isInSession (snd (complete 1 idle))) = False"
  using complete_idle_returns_undefined [of "fst idle" 1 "snd idle"]
  by (simp add: idle_def new_Session_def isInSession_eq)

text \<open>
  C8, as stated, says that cancel without an active session is a no-op. It is not:
  line 97 calls \<^verbatim>\<open>onSessionChange\<close> whether or not there was a session. On a fresh
  manager of the editor above, cancel leaves a state that differs from the one before:
  one call to the notifier has been made and the number of renders went from 0 to 1.
\<close>

theorem cancel_idle_notifies_counterexample:
  "fst (isInSession idle) = False
   \<and> snd (cancel 7 idle) \<noteq> idle
   \<and> world (snd idle) = ([], 0)
   \<and> world (snd (snd (cancel 7 idle))) = ([], 1)
   \<and> calls (snd idle) = []
   \<and> calls (snd (snd (cancel 7 idle))) = [OnSessionChange]"
  by (simp add: idle_def env0_def new_Session_def isInSession_eq cancel_idle render_def)

text \<open>
  C8, amended. Without an active session, cancel throws nothing, calls no session
  capability, leaves the manager idle and unchanged, returns the manager itself, and
  calls the notifier exactly once.
\<close>

theorem cancel_idle_only_notifies:
  "current this = None \<Longrightarrow>
     cancel args (this, e) =
       (Inr This,
        (this,
         \<lparr>world = onSessionChange this (world e),
          calls = calls e @ [OnSessionChange]\<rparr>))
     \<and> fst (isInSession (snd (cancel args (this, e)))) = False
     \<and> notifications (calls (snd (snd (cancel args (this, e))))) =
         notifications (calls e) + 1"
  by (simp add: cancel_idle isInSession_eq notifications_def)

text \<open>
The theorem at a fresh manager.
\<close>

theorem cancel_idle_only_notifies_witness:
  "current (fst idle) = None
   \<and> cancel 7 idle =
       (Inr This, (fst idle, \<lparr>world = ([], 1), calls = [OnSessionChange]\<rparr>))
   \<and> fst (isInSession (snd (cancel 7 idle))) = False
   \<and> notifications (calls (snd (snd (cancel 7 idle)))) = 1"
  using cancel_idle_only_notifies [of "fst idle" 7 "snd idle"]
  by (simp add: idle_def env0_def new_Session_def render_def notifications_def
      isInSession_eq)

text \<open>
  C9. In every state, with or without an active session, quietlyComplete leaves the
  manager idle and changes nothing else: the notifier field, the world and the sequence
  of calls are as before, so neither the session's complete nor its cancel nor the
  notifier was called. It returns the manager itself.
\<close>

theorem quietlyComplete_clears_silently:
  "quietlyComplete (this, e) = (Inr This, (this\<lparr>current := None\<rparr>, e))
   \<and> fst (isInSession (snd (quietlyComplete (this, e)))) = False
   \<and> onSessionChange (fst (snd (quietlyComplete (this, e)))) = onSessionChange this
   \<and> world (snd (snd (quietlyComplete (this, e)))) = world e
   \<and> calls (snd (snd (quietlyComplete (this, e)))) = calls e"
  by (simp add: quietlyComplete_eq isInSession_eq)

text \<open>
  C10. Whenever begin throws, a session was active and the error is the
  \<open>DoubleBeginError\<close>; whenever update throws, no session was active and the error is the
  \<open>NoActiveSessionError\<close>. In both cases the manager (its slot \<^verbatim>\<open>current\<close> included) and
  the environment are exactly what they were before the call, and the notifier was not
  called.
\<close>

theorem raising_calls_change_nothing:
  "(fst (begin_session s st) = Inl err \<longrightarrow>
      err = DoubleBeginError \<and> current (fst st) \<noteq> None \<and> snd (begin_session s st) = st
      \<and> notifications (calls (snd (snd (begin_session s st)))) = notifications (calls (snd st)))
   \<and> (fst (update args st) = Inl err \<longrightarrow>
        err = NoActiveSessionError \<and> current (fst st) = None \<and> snd (update args st) = st
        \<and> notifications (calls (snd (snd (update args st)))) = notifications (calls (snd st)))"
proof (cases st)
  case (Pair this e)
  then show ?thesis
    by (cases "current this")
      (auto simp add: begin_session_idle begin_session_active update_idle update_active)
qed

text \<open>
  The theorem where the calls do throw: begin on a manager that holds a drawing session,
  update on a fresh manager.
\<close>

theorem raising_calls_change_nothing_witness:
  "fst (begin_session EraseSession drawing) = Inl DoubleBeginError
   \<and> current (fst drawing) \<noteq> None
   \<and> snd (begin_session EraseSession drawing) = drawing
   \<and> fst (update 3 idle) = Inl NoActiveSessionError
   \<and> current (fst idle) = None
   \<and> snd (update 3 idle) = idle"
  using raising_calls_change_nothing [of EraseSession drawing DoubleBeginError]
    raising_calls_change_nothing [of _ idle NoActiveSessionError 3]
  by (simp add: drawing_def idle_def new_Session_def begin_session_active update_idle)

end
